theory Spec2Isabelle
  imports Main "HOL-Library.AList"
begin

section \<open>JavaScript values read by the worker\<close>

text \<open>
  The worker of \<^verbatim>\<open>src/webpackWorker.js\<close> reads a handful of properties of plain
  JavaScript objects. A property that is absent reads as \<^verbatim>\<open>undefined\<close>: it is
  \<open>None\<close> here. Reading a property of \<^verbatim>\<open>undefined\<close> throws a TypeError, which is a
  value of \<open>js_error\<close>.
\<close>

datatype jsval = JNull | JBool bool | JNum int | JStr string | JRegExp string

datatype js_error = TypeError

text \<open>\<^verbatim>\<open>!!v\<close>, and the test of \<^verbatim>\<open>if (v)\<close>.\<close>

fun truthy :: "jsval option \<Rightarrow> bool" where
  "truthy None = False"
| "truthy (Some JNull) = False"
| "truthy (Some (JBool b)) = b"
| "truthy (Some (JNum n)) = (n \<noteq> 0)"
| "truthy (Some (JStr s)) = (s \<noteq> [])"
| "truthy (Some (JRegExp r)) = True"

subsection \<open>The configuration object\<close>

text \<open>
  \<^verbatim>\<open>webpackConfig.entry\<close>: absent, a string, an array of strings, or an object
  from entry names to sources (its keys in the order \<^verbatim>\<open>Object.keys\<close> lists them).
\<close>

datatype entry =
    EntryUndefined
  | EntryString string
  | EntryArray "string list"
  | EntryObject "(string \<times> string) list"

record output_settings =
  filename :: "string option"

text \<open>
  The properties of a configuration that the worker reads; \<open>wp_output\<close> is
  \<^verbatim>\<open>webpackConfig.output\<close>. \<open>stats\<close> holds the own
  enumerable properties of \<^verbatim>\<open>webpackConfig.stats\<close> in their order, which is all that
  the spread \<^verbatim>\<open>{ ...webpackConfig.stats }\<close> reads (none when it is \<^verbatim>\<open>undefined\<close>).
\<close>

record webpackConfig =
  name :: "string option"
  entry :: entry
  wp_output :: "output_settings option"
  stats :: "(string \<times> jsval) list"
  watchOptions :: "jsval option"

subsection \<open>Strings\<close>

text \<open>\<^verbatim>\<open>s.indexOf(p) !== -1\<close>: \<open>p\<close> occurs in \<open>s\<close>.\<close>

fun occurs_in :: "string \<Rightarrow> string \<Rightarrow> bool" where
  "occurs_in p [] = (p = [])"
| "occurs_in p (c # cs) = (take (length p) (c # cs) = p \<or> occurs_in p cs)"

text \<open>
  The replacement text of \<^verbatim>\<open>String.prototype.replace\<close> for one match, when the pattern
  has no capture group: in the replacement string \<^verbatim>\<open>$$\<close> stands for a dollar sign,
  \<^verbatim>\<open>$&\<close> for the matched text, \<^verbatim>\<open>$`\<close> for the text before the match and \<^verbatim>\<open>$'\<close> for the
  text after it; every other character, a dollar sign included, stands for itself.
\<close>

fun get_substitution :: "string \<Rightarrow> string \<Rightarrow> string \<Rightarrow> string \<Rightarrow> string" where
  "get_substitution matched pre post [] = []"
| "get_substitution matched pre post [c] = [c]"
| "get_substitution matched pre post (c # d # r) =
     (if c = CHR ''$'' \<and> d = CHR ''$'' then CHR ''$'' # get_substitution matched pre post r
      else if c = CHR ''$'' \<and> d = CHR ''&'' then matched @ get_substitution matched pre post r
      else if c = CHR ''$'' \<and> d = CHR 0x60 then pre @ get_substitution matched pre post r
      else if c = CHR ''$'' \<and> d = CHR 0x27 then post @ get_substitution matched pre post r
      else c # get_substitution matched pre post (d # r))"

definition placeholder :: string where
  "placeholder = ''[name]''"

text \<open>
  \<^verbatim>\<open>appName.replace(/\[name]/g, replacement)\<close>: every occurrence of the placeholder,
  from left to right, gives way to its replacement text. \<open>pre\<close> is the part of the
  original string already passed.
\<close>

function replace_name :: "string \<Rightarrow> string \<Rightarrow> string \<Rightarrow> string" where
  "replace_name replacement pre [] = []"
| "replace_name replacement pre (c # cs) =
     (if take 6 (c # cs) = placeholder
      then get_substitution placeholder pre (drop 6 (c # cs)) replacement
             @ replace_name replacement (pre @ placeholder) (drop 6 (c # cs))
      else c # replace_name replacement (pre @ [c]) cs)"
  by pat_completeness auto
termination
  by (relation "measure (\<lambda>(r, b, s). length s)") auto

text \<open>The decimal numeral of an array index, as \<^verbatim>\<open>Object.keys\<close> of an array gives it.\<close>

definition digit_char :: "nat \<Rightarrow> char" where
  "digit_char d = char_of (48 + d)"

fun string_of_nat :: "nat \<Rightarrow> string" where
  "string_of_nat n =
     (if n < 10 then [digit_char n] else string_of_nat (n div 10) @ [digit_char (n mod 10)])"

declare string_of_nat.simps [simp del]

text \<open>\<^verbatim>\<open>typeof webpackConfig.entry === 'object'\<close> and \<^verbatim>\<open>Object.keys(webpackConfig.entry)\<close>.\<close>

fun typeof_object :: "entry \<Rightarrow> bool" where
  "typeof_object EntryUndefined = False"
| "typeof_object (EntryString s) = False"
| "typeof_object (EntryArray xs) = True"
| "typeof_object (EntryObject kvs) = True"

fun object_keys :: "entry \<Rightarrow> string list" where
  "object_keys (EntryArray xs) = map string_of_nat [0..<length xs]"
| "object_keys (EntryObject kvs) = map fst kvs"
| "object_keys e = []"

section \<open>getAppName\<close>

text \<open>
  \<^verbatim>\<open>webpackConfig.name || webpackConfig.output.filename\<close>: a name that is absent or
  empty is falsy, and then \<^verbatim>\<open>output.filename\<close> is read, which throws when there is no
  \<^verbatim>\<open>output\<close>. The result may still be \<^verbatim>\<open>undefined\<close>.
\<close>

definition read_filename :: "webpackConfig \<Rightarrow> js_error + string option" where
  "read_filename webpackConfig =
     (case wp_output webpackConfig of
        None \<Rightarrow> Inl TypeError
      | Some out \<Rightarrow> Inr (filename out))"

definition name_or_filename :: "webpackConfig \<Rightarrow> js_error + string option" where
  "name_or_filename webpackConfig =
     (case name webpackConfig of
        None \<Rightarrow> read_filename webpackConfig
      | Some n \<Rightarrow> if n \<noteq> [] then Inr (Some n) else read_filename webpackConfig)"

text \<open>Lines 21 to 28, once \<open>appName\<close> is a string.\<close>

definition substitute_entry :: "entry \<Rightarrow> string \<Rightarrow> string" where
  "substitute_entry e appName =
     (if occurs_in placeholder appName \<and> typeof_object e
      then (let entryNames = object_keys e
            in if length entryNames = 1 then replace_name (entryNames ! 0) [] appName
               else appName)
      else appName)"

definition getAppName :: "webpackConfig \<Rightarrow> js_error + string" where
  "getAppName webpackConfig =
     (case name_or_filename webpackConfig of
        Inl e \<Rightarrow> Inl e
      | Inr None \<Rightarrow> Inl TypeError
      | Inr (Some appName) \<Rightarrow> Inr (substitute_entry (entry webpackConfig) appName))"

section \<open>getOutputOptions\<close>

text \<open>
  The build options. \<open>opt_watch\<close>, \<open>opt_json\<close>, \<open>opt_stats\<close>, \<open>opt_colors\<close> and
  \<open>opt_argv\<close> are \<^verbatim>\<open>options.watch\<close>, \<^verbatim>\<open>options.json\<close>, \<^verbatim>\<open>options.stats\<close>,
  \<^verbatim>\<open>options.colors\<close> and \<^verbatim>\<open>options.argv\<close>.
\<close>

record options =
  opt_watch :: "jsval option"
  opt_json :: "jsval option"
  opt_stats :: "jsval option"
  opt_colors :: "jsval option"
  opt_argv :: "string list option"
  modulesSort :: "jsval option"
  chunksSort :: "jsval option"
  assetsSort :: "jsval option"
  exclude :: "jsval option"

text \<open>
  \<^verbatim>\<open>if (typeof v !== 'undefined') outputOptions[k] = v\<close>: an assignment keeps the place
  of a key the object has already and adds a new key at the end.
\<close>

definition assign_defined :: "string \<Rightarrow> jsval option \<Rightarrow> (string \<times> jsval) list \<Rightarrow> (string \<times> jsval) list" where
  "assign_defined k v outputOptions =
     (case v of None \<Rightarrow> outputOptions | Some x \<Rightarrow> AList.update k x outputOptions)"

definition getOutputOptions :: "webpackConfig \<Rightarrow> options \<Rightarrow> (string \<times> jsval) list" where
  "getOutputOptions webpackConfig opts =
     assign_defined ''colors'' (opt_colors opts)
       (assign_defined ''exclude'' (exclude opts)
         (assign_defined ''assetsSort'' (assetsSort opts)
           (assign_defined ''chunksSort'' (chunksSort opts)
             (assign_defined ''modulesSort'' (modulesSort opts)
               (stats webpackConfig)))))"

section \<open>The configuration artifact\<close>

text \<open>
  Modelled from the spec: \<^verbatim>\<open>loadConfigurationFile\<close> is not among the sources, so what
  it returns is a parameter of the worker, of the shapes the specification gives the
  configuration artifact: a configuration object, an array, or a promise, which fulfils
  with an artifact or rejects with a reason.
\<close>

datatype artifact =
    Single webpackConfig
  | Collection "artifact list"
  | Deferred artifact
  | Failing string

text \<open>\<^verbatim>\<open>Array.isArray(config)\<close>.\<close>

fun isArray :: "artifact \<Rightarrow> bool" where
  "isArray (Collection xs) = True"
| "isArray a = False"

text \<open>
  \<^verbatim>\<open>config.length\<close>: the number of elements of an array; neither a configuration
  object nor a promise has a property of that name, so it is \<^verbatim>\<open>undefined\<close> there.
\<close>

fun config_length :: "artifact \<Rightarrow> int option" where
  "config_length (Collection xs) = Some (int (length xs))"
| "config_length a = None"

definition errorMessage :: string where
  "errorMessage =
     ''[WEBPACK] There is a difference between the amount of the'' @
     '' provided configs. Maybe you where expecting command line'' @
     '' arguments to be passed to your webpack.config.js. If so,'' @
     '' you'' @ [CHR 0x27] @ ''ll need to separate them with a -- from the parallel-webpack options.''"

text \<open>
  Lines 77 to 90: the outer test and the inner one, which together decide whether
  \<^verbatim>\<open>Promise.reject(errorMessage)\<close> is returned.
\<close>

definition count_mismatch :: "artifact \<Rightarrow> int \<Rightarrow> bool" where
  "count_mismatch config expectedConfigLength =
     (if (expectedConfigLength \<noteq> 1 \<and> \<not> isArray config) \<or>
         (isArray config \<and> config_length config \<noteq> Some expectedConfigLength)
      then config_length config \<noteq> Some expectedConfigLength
      else False)"

text \<open>
  Lines 91 to 93: \<^verbatim>\<open>config[index]\<close> of an array is \<^verbatim>\<open>undefined\<close> (\<open>None\<close>) out of
  range; anything but an array is kept as it is.
\<close>

fun select_config :: "artifact \<Rightarrow> int \<Rightarrow> artifact option" where
  "select_config (Collection xs) index =
     (if 0 \<le> index \<and> index < int (length xs) then Some (xs ! nat index) else None)"
| "select_config a index = Some a"

text \<open>
  \<^verbatim>\<open>Promise.resolve(config)\<close>: the value handed to the \<^verbatim>\<open>then\<close> callback, or the
  reason of the rejection. A promise is followed to its end; an array is not looked
  into.
\<close>

datatype resolved = VUndefined | VConfig webpackConfig | VArray "artifact list"

datatype settled = Fulfilled resolved | Rejected string

fun settle :: "artifact \<Rightarrow> settled" where
  "settle (Single c) = Fulfilled (VConfig c)"
| "settle (Collection xs) = Fulfilled (VArray xs)"
| "settle (Deferred a) = settle a"
| "settle (Failing reason) = Rejected reason"

definition promise_resolve :: "artifact option \<Rightarrow> settled" where
  "promise_resolve config = (case config of None \<Rightarrow> Fulfilled VUndefined | Some a \<Rightarrow> settle a)"

text \<open>
  The properties the worker reads from the resolved value: \<^verbatim>\<open>undefined\<close> has none to
  read (any read throws), and an array has none of these five.
\<close>

definition no_properties :: webpackConfig where
  "no_properties =
     \<lparr>name = None, entry = EntryUndefined, wp_output = None, stats = [], watchOptions = None\<rparr>"

fun properties :: "resolved \<Rightarrow> webpackConfig option" where
  "properties VUndefined = None"
| "properties (VConfig c) = Some c"
| "properties (VArray xs) = Some no_properties"

section \<open>Collaborators and effects\<close>

text \<open>
  The statistics object of the compiler: \<open>errors\<close> are the messages of
  \<^verbatim>\<open>stats.compilation.errors\<close> (\<open>None\<close> when that is \<^verbatim>\<open>undefined\<close>); the times are
  in milliseconds.
\<close>

record compile_stats =
  errors :: "string list option"
  startTime :: int
  endTime :: int

text \<open>
  What the worker cannot see into: the three \<^verbatim>\<open>chalk\<close> styles, and whether the
  \<^verbatim>\<open>webpack\<close> module has a truthy property \<^verbatim>\<open>watch\<close>.
\<close>

record env =
  red :: "string \<Rightarrow> string"
  yellow :: "string \<Rightarrow> string"
  blue :: "string \<Rightarrow> string"
  webpack_watch :: bool

text \<open>
  \<^verbatim>\<open>JSON.stringify(stats.toJson(outputOptions), null, 2)\<close> is kept as the pair of its
  arguments, and so is \<^verbatim>\<open>stats.toString(outputOptions)\<close>.
\<close>

datatype serialized = StatsJson compile_stats "(string \<times> jsval) list"

text \<open>The object \<^verbatim>\<open>{ message: ..., stats: ... }\<close> given to \<^verbatim>\<open>done\<close>.\<close>

record failure =
  message :: string
  stats_json :: "serialized option"

text \<open>
  The arguments of one call of \<^verbatim>\<open>done\<close>: the error value of the compiler, a failure
  object, or \<^verbatim>\<open>null\<close> with the result (\<open>None\<close> is the empty string).
\<close>

datatype done_args =
    DoneFatal string
  | DoneFailure failure
  | DoneResult "serialized option"

text \<open>One constructor for each place that writes to the console.\<close>

datatype console_line =
    MismatchLine string
  | FatalBanner string
  | FatalValue string
  | ErrorsLine string
  | StatsDump compile_stats "(string \<times> jsval) list"
  | FinishedLine bool string int
  | StartedLine string string

text \<open>
  Why the promise that \<^verbatim>\<open>then\<close> returns, which nobody holds, is rejected: the
  \<^verbatim>\<open>then\<close> callback threw, or the configuration's own promise was rejected.
\<close>

datatype rejection = Thrown js_error | Reason string

text \<open>
  Everything the worker does to the world, in the order it does it.
  \<open>Uncaught\<close> is an exception that leaves a callback of the compiler or of the
  signal. \<^verbatim>\<open>notifyIPCWatchCompileDone\<close> is not among the sources: its call, with the
  index, is one of the effects.
\<close>

datatype event =
    SetArgv "string list"
  | SetChalkEnabled "jsval option"
  | ConsoleError console_line
  | ConsoleLog console_line
  | Webpack resolved
  | CompilerRun
  | CompilerWatch "jsval option"
  | ProcessOnSigint
  | RemoveListener
  | Done done_args
  | NotifyIPCWatchCompileDone int
  | WatcherClose
  | ProcessExit int
  | Uncaught js_error
  | ChainRejected rejection

text \<open>
  The compiler between calls: \<open>Running\<close> after \<^verbatim>\<open>compiler.run\<close>, until it calls back
  (once); \<open>Watching\<close> after \<^verbatim>\<open>compiler.watch\<close>, where it calls back after every
  compilation; \<open>Idle\<close> when nothing was started or the run is over.
\<close>

datatype compiler_state = Idle | Running | Watching

text \<open>
  The mutable state: the closure variables \<open>hasCompletedOneCompile\<close> and \<open>watcher\<close>
  (is it defined), whether \<open>shutdownCallback\<close> listens to SIGINT, whether the process
  has ended, and the effects so far.
\<close>

record worker =
  trace :: "event list"
  hasCompletedOneCompile :: bool
  watcher :: bool
  listener :: bool
  compiler :: compiler_state
  exited :: bool

text \<open>The constants of the closure of the \<^verbatim>\<open>then\<close> callback.\<close>

record closure =
  c_env :: env
  c_options :: options
  c_index :: int
  c_config :: webpackConfig
  c_outputOptions :: "(string \<times> jsval) list"
  c_watch :: bool
  c_silent :: bool

definition emit :: "event list \<Rightarrow> worker \<Rightarrow> worker" where
  "emit es w = w\<lparr>trace := trace w @ es\<rparr>"

text \<open>\<^verbatim>\<open>process.removeListener('SIGINT', shutdownCallback)\<close>.\<close>

definition removeListener :: "worker \<Rightarrow> worker" where
  "removeListener w = (emit [RemoveListener] w)\<lparr>listener := False\<rparr>"

text \<open>An exception that nothing catches ends the process.\<close>

definition uncaught :: "js_error \<Rightarrow> worker \<Rightarrow> worker" where
  "uncaught e w = (emit [Uncaught e] w)\<lparr>exited := True\<rparr>"

text \<open>\<^verbatim>\<open>xs.join(sep)\<close>.\<close>

fun join :: "string \<Rightarrow> string list \<Rightarrow> string" where
  "join sep [] = []"
| "join sep [x] = x"
| "join sep (x # y # ys) = x @ sep @ join sep (y # ys)"

section \<open>The callbacks\<close>

definition forced_message :: "closure \<Rightarrow> string \<Rightarrow> string" where
  "forced_message c appName =
     red (c_env c) ''[WEBPACK]'' @ '' Forcefully shut down '' @ yellow (c_env c) appName"

text \<open>
  Lines 100 to 111. \<^verbatim>\<open>watcher.close(done)\<close> hands \<^verbatim>\<open>done\<close> to the watcher as its own
  callback; the argument of the second \<^verbatim>\<open>done\<close> is built before the call, so an
  exception of \<open>getAppName\<close> leaves the callback before it.
\<close>

definition shutdownCallback :: "closure \<Rightarrow> worker \<Rightarrow> worker" where
  "shutdownCallback c w =
     (let w1 = (if watcher w then emit [WatcherClose] w else w)
      in case getAppName (c_config c) of
           Inl e \<Rightarrow> uncaught e w1
         | Inr appName \<Rightarrow>
             (emit [Done (DoneFailure \<lparr>message = forced_message c appName, stats_json = None\<rparr>),
                    ProcessExit 0] w1)\<lparr>exited := True\<rparr>)"

text \<open>\<^verbatim>\<open>stats.compilation.errors && stats.compilation.errors.length\<close>.\<close>

definition has_errors :: "compile_stats \<Rightarrow> bool" where
  "has_errors s = (case errors s of None \<Rightarrow> False | Some es \<Rightarrow> es \<noteq> [])"

definition errors_message :: "closure \<Rightarrow> string \<Rightarrow> compile_stats \<Rightarrow> string" where
  "errors_message c appName s =
     red (c_env c) ''[WEBPACK]'' @ '' Errors building '' @ yellow (c_env c) appName @
     [CHR 0x0A] @ join [CHR 0x0A] (case errors s of None \<Rightarrow> [] | Some es \<Rightarrow> es)"

text \<open>Lines 159 to 170.\<close>

definition conclude :: "closure \<Rightarrow> compile_stats \<Rightarrow> worker \<Rightarrow> worker" where
  "conclude c s w =
     (if \<not> c_watch c
      then emit [Done (DoneResult (if truthy (opt_stats (c_options c))
                                   then Some (StatsJson s (c_outputOptions c)) else None))]
             (removeListener w)
      else if \<not> hasCompletedOneCompile w
      then (emit [NotifyIPCWatchCompileDone (c_index c)] w)\<lparr>hasCompletedOneCompile := True\<rparr>
      else w)"

text \<open>
  Lines 144 to 170. The arguments of the summary line are the flag of the time stamp
  (it is there in watch mode), the styled display name and the elapsed milliseconds.
\<close>

definition report_and_conclude :: "closure \<Rightarrow> compile_stats \<Rightarrow> worker \<Rightarrow> worker" where
  "report_and_conclude c s w =
     (if \<not> c_silent c
      then (let w1 = (if truthy (opt_stats (c_options c))
                      then emit [ConsoleLog (StatsDump s (c_outputOptions c))] w else w)
            in case getAppName (c_config c) of
                 Inl e \<Rightarrow> uncaught e w1
               | Inr appName \<Rightarrow>
                   conclude c s
                     (emit [ConsoleLog (FinishedLine (c_watch c) (yellow (c_env c) appName)
                                          (endTime s - startTime s))] w1))
      else conclude c s w)"

datatype compile_result = Fatal string | Finished compile_stats

text \<open>Lines 112 to 171.\<close>

fun finishedCallback :: "closure \<Rightarrow> compile_result \<Rightarrow> worker \<Rightarrow> worker" where
  "finishedCallback c (Fatal err) w =
     emit [Done (DoneFatal err)]
       (removeListener
          (emit [ConsoleError (FatalBanner (red (c_env c) ''[WEBPACK]'')),
                 ConsoleError (FatalValue err)] w))"
| "finishedCallback c (Finished s) w =
     (if has_errors s
      then (case getAppName (c_config c) of
              Inl e \<Rightarrow> uncaught e w
            | Inr appName \<Rightarrow>
                if c_watch c
                then report_and_conclude c s
                       (emit [ConsoleLog (ErrorsLine (errors_message c appName s))] w)
                else emit [Done (DoneFailure
                                   \<lparr>message = errors_message c appName s,
                                    stats_json = Some (StatsJson s (c_outputOptions c))\<rparr>)]
                       (removeListener w))
      else report_and_conclude c s w)"

section \<open>runBuild\<close>

definition make_closure :: "env \<Rightarrow> options \<Rightarrow> int \<Rightarrow> webpackConfig \<Rightarrow> closure" where
  "make_closure e opts index webpackConfig =
     \<lparr>c_env = e, c_options = opts, c_index = index, c_config = webpackConfig,
      c_outputOptions = getOutputOptions webpackConfig opts,
      c_watch = truthy (opt_watch opts), c_silent = truthy (opt_json opts)\<rparr>"

text \<open>
  Lines 172 to 190, for a resolved value \<open>v\<close> that has properties: the start line (its
  arguments first, so \<open>getAppName\<close> may throw before anything is written or compiled),
  the compiler, and last the listener.
\<close>

definition then_callback :: "closure \<Rightarrow> resolved \<Rightarrow> worker \<Rightarrow> worker" where
  "then_callback c v w =
     (case (if \<not> c_silent c
            then (case getAppName (c_config c) of
                    Inl e \<Rightarrow> Inl e
                  | Inr appName \<Rightarrow>
                      Inr (emit [ConsoleLog (StartedLine (if c_watch c then ''watching'' else ''building'')
                                               (yellow (c_env c) appName))] w))
            else Inr w) of
        Inl e \<Rightarrow> emit [ChainRejected (Thrown e)] w
      | Inr w1 \<Rightarrow>
          (let w2 = emit [Webpack v] w1;
               w3 = (if c_watch c \<or> webpack_watch (c_env c)
                     then (emit [CompilerWatch (watchOptions (c_config c))] w2)
                            \<lparr>watcher := True, compiler := Watching\<rparr>
                     else (emit [CompilerRun] w2)\<lparr>compiler := Running\<rparr>)
           in (emit [ProcessOnSigint] w3)\<lparr>listener := True\<rparr>))"

text \<open>
  What happens after the \<^verbatim>\<open>then\<close> callback has returned (the compiler completes
  asynchronously, so the listener is there before the first callback): the compiler
  calls back, or SIGINT arrives. A process that has ended does nothing more. The compiler calls
  \<open>finishedCallback\<close> once after \<^verbatim>\<open>run\<close> and any number of times after \<^verbatim>\<open>watch\<close>. SIGINT
  runs \<open>shutdownCallback\<close> while it listens; with no listener the signal ends the
  process, as it does by default.
\<close>

datatype signal = Compiled compile_result | Sigint

definition deliver :: "closure \<Rightarrow> worker \<Rightarrow> signal \<Rightarrow> worker" where
  "deliver c w sig =
     (if exited w then w
      else (case sig of
              Compiled r \<Rightarrow>
                (case compiler w of
                   Idle \<Rightarrow> w
                 | Running \<Rightarrow> finishedCallback c r (w\<lparr>compiler := Idle\<rparr>)
                 | Watching \<Rightarrow> finishedCallback c r w)
            | Sigint \<Rightarrow> if listener w then shutdownCallback c w else w\<lparr>exited := True\<rparr>))"

definition initial :: worker where
  "initial =
     \<lparr>trace = [], hasCompletedOneCompile = False, watcher = False, listener = False,
      compiler = Idle, exited = False\<rparr>"

text \<open>What the call itself returns: \<^verbatim>\<open>Promise.reject(errorMessage)\<close> or nothing.\<close>

datatype returned = RejectedPromise string | ReturnsUndefined

text \<open>
  Lines 70 to 74: the settings of the process, before the artifact \<open>config\<close> that
  \<^verbatim>\<open>loadConfigurationFile\<close> returned is looked at.
\<close>

definition process_settings :: "options \<Rightarrow> worker" where
  "process_settings opts =
     emit ((case opt_argv opts of None \<Rightarrow> [] | Some a \<Rightarrow> [SetArgv a]) @
           [SetChalkEnabled (opt_colors opts)]) initial"

text \<open>
  Lines 94 to 191 for the selected value: the promise may reject, the first line of the
  \<^verbatim>\<open>then\<close> callback throws on \<^verbatim>\<open>undefined\<close>, and otherwise the callback runs and the
  signals \<open>sigs\<close> follow it.
\<close>

definition resolve_and_build ::
  "env \<Rightarrow> options \<Rightarrow> int \<Rightarrow> artifact option \<Rightarrow> signal list \<Rightarrow> worker \<Rightarrow> worker" where
  "resolve_and_build e opts index config sigs w =
     (case promise_resolve config of
        Rejected reason \<Rightarrow> emit [ChainRejected (Reason reason)] w
      | Fulfilled v \<Rightarrow>
          (case properties v of
             None \<Rightarrow> emit [ChainRejected (Thrown TypeError)] w
           | Some webpackConfig \<Rightarrow>
               (let c = make_closure e opts index webpackConfig
                in foldl (deliver c) (then_callback c v w) sigs)))"

text \<open>
  The exported function, lines 63 to 192. \<open>config\<close> is what \<^verbatim>\<open>loadConfigurationFile\<close>
  returned and \<open>sigs\<close> what the compiler and the operating system do afterwards.
\<close>

definition runBuild ::
  "env \<Rightarrow> artifact \<Rightarrow> options \<Rightarrow> int \<Rightarrow> int \<Rightarrow> signal list \<Rightarrow> returned \<times> worker" where
  "runBuild e config opts index expectedConfigLength sigs =
     (if count_mismatch config expectedConfigLength
      then (RejectedPromise errorMessage,
            emit [ConsoleError (MismatchLine errorMessage)] (process_settings opts))
      else (ReturnsUndefined,
            resolve_and_build e opts index (select_config config index) sigs
              (process_settings opts)))"

section \<open>Notions used in the statements\<close>

text \<open>The compiler is invoked: \<^verbatim>\<open>webpack(...)\<close>, \<^verbatim>\<open>compiler.run\<close> or \<^verbatim>\<open>compiler.watch\<close>.\<close>

fun is_compiler_call :: "event \<Rightarrow> bool" where
  "is_compiler_call (Webpack v) = True"
| "is_compiler_call CompilerRun = True"
| "is_compiler_call (CompilerWatch wo) = True"
| "is_compiler_call ev = False"

fun is_done :: "event \<Rightarrow> bool" where
  "is_done (Done d) = True"
| "is_done ev = False"

fun is_notify :: "event \<Rightarrow> bool" where
  "is_notify (NotifyIPCWatchCompileDone i) = True"
| "is_notify ev = False"

text \<open>The lines that tell how the build goes: the start, the statistics, the summary.\<close>

fun is_status_line :: "event \<Rightarrow> bool" where
  "is_status_line (ConsoleLog (StartedLine m n)) = True"
| "is_status_line (ConsoleLog (StatsDump s oo)) = True"
| "is_status_line (ConsoleLog (FinishedLine t n ms)) = True"
| "is_status_line ev = False"


text \<open>Kinds of signals: a callback of the compiler, one with a fatal error, one without.\<close>

fun is_compiled :: "signal \<Rightarrow> bool" where
  "is_compiled (Compiled r) = True"
| "is_compiled Sigint = False"

fun is_fatal :: "signal \<Rightarrow> bool" where
  "is_fatal (Compiled (Fatal err)) = True"
| "is_fatal sig = False"

fun is_finished :: "signal \<Rightarrow> bool" where
  "is_finished (Compiled (Finished s)) = True"
| "is_finished sig = False"

text \<open>
  The specification's reading of the substitution, to compare \<open>replace_name\<close> with:
  every placeholder gives way to the entry name itself.
\<close>

function substitute_literally :: "string \<Rightarrow> string \<Rightarrow> string" where
  "substitute_literally entryName [] = []"
| "substitute_literally entryName (c # cs) =
     (if take 6 (c # cs) = placeholder
      then entryName @ substitute_literally entryName (drop 6 (c # cs))
      else c # substitute_literally entryName cs)"
  by pat_completeness auto
termination
  by (relation "measure (\<lambda>(n, s). length s)") auto


subsection \<open>Concrete inputs\<close>

definition example_env :: env where
  "example_env = \<lparr>red = (\<lambda>s. s), yellow = (\<lambda>s. s), blue = (\<lambda>s. s), webpack_watch = False\<rparr>"

definition example_config :: webpackConfig where
  "example_config =
     \<lparr>name = None, entry = EntryObject [(''main'', ''./src/index.js'')],
      wp_output = Some \<lparr>filename = Some ''[name].bundle.js''\<rparr>,
      stats = [(''colors'', JBool True)], watchOptions = None\<rparr>"

definition dollar_config :: webpackConfig where
  "dollar_config = example_config\<lparr>entry := EntryObject [(''a$$b'', ''./src/index.js'')]\<rparr>"

definition no_options :: options where
  "no_options =
     \<lparr>opt_watch = None, opt_json = None, opt_stats = None, opt_colors = None, opt_argv = None,
      modulesSort = None, chunksSort = None, assetsSort = None, exclude = None\<rparr>"

definition failing_stats :: compile_stats where
  "failing_stats = \<lparr>errors = Some [''Module not found''], startTime = 0, endTime = 1500\<rparr>"

definition clean_stats :: compile_stats where
  "clean_stats = \<lparr>errors = Some [], startTime = 0, endTime = 1500\<rparr>"

section \<open>Count validation\<close>

lemma trace_process_settings:
  "filter is_compiler_call (trace (process_settings opts)) = []"
  by (simp add: process_settings_def emit_def initial_def split: option.splits)

lemma rejected_run:
  assumes "count_mismatch config n"
  shows "runBuild e config opts index n sigs =
           (RejectedPromise errorMessage,
            emit [ConsoleError (MismatchLine errorMessage)] (process_settings opts))"
  using assms by (simp add: runBuild_def)

lemma rejected_no_compiler:
  "filter is_compiler_call
     (trace (emit [ConsoleError (MismatchLine errorMessage)] (process_settings opts))) = []"
  by (simp add: emit_def trace_process_settings)

text \<open>
  Claim C3. For every array artifact whose length differs from the expected count,
  \<open>runBuild\<close> returns a promise rejected with the descriptive message, having written
  that message to the console, and the compiler is never invoked: the effects hold no
  call of \<^verbatim>\<open>webpack\<close>, \<^verbatim>\<open>run\<close> or \<^verbatim>\<open>watch\<close>, whatever happens afterwards.
\<close>

theorem collection_count_mismatch_rejects:
  assumes "int (length xs) \<noteq> expectedConfigLength"
  shows "runBuild e (Collection xs) opts index expectedConfigLength sigs =
           (RejectedPromise errorMessage,
            emit [ConsoleError (MismatchLine errorMessage)] (process_settings opts)) \<and>
         filter is_compiler_call
           (trace (snd (runBuild e (Collection xs) opts index expectedConfigLength sigs))) = []"
proof -
  have "count_mismatch (Collection xs) expectedConfigLength"
    using assms by (simp add: count_mismatch_def)
  then show ?thesis
    by (simp add: rejected_run rejected_no_compiler)
qed

theorem collection_count_mismatch_rejects_witness:
  "int (length [Single example_config]) \<noteq> 2 \<and>
   fst (runBuild example_env (Collection [Single example_config]) no_options 0 2
          [Compiled (Finished clean_stats)]) = RejectedPromise errorMessage \<and>
   filter is_compiler_call
     (trace (snd (runBuild example_env (Collection [Single example_config]) no_options 0 2
                    [Compiled (Finished clean_stats)]))) = []"
proof -
  have h: "int (length [Single example_config]) \<noteq> 2"
    by simp
  show ?thesis
    using h collection_count_mismatch_rejects [OF h, of example_env no_options 0
        "[Compiled (Finished clean_stats)]"]
    by auto
qed

text \<open>
  Claim C4. For every artifact that is not an array, an expected count other than 1
  makes \<open>runBuild\<close> return the rejected promise, and the compiler is never invoked.
\<close>

theorem single_config_wrong_count_rejects:
  assumes "\<not> isArray config" and "expectedConfigLength \<noteq> 1"
  shows "fst (runBuild e config opts index expectedConfigLength sigs) = RejectedPromise errorMessage \<and>
         filter is_compiler_call
           (trace (snd (runBuild e config opts index expectedConfigLength sigs))) = []"
proof -
  have "config_length config = None"
    using assms(1) by (cases config) simp_all
  then have "count_mismatch config expectedConfigLength"
    using assms by (simp add: count_mismatch_def)
  then show ?thesis
    by (simp add: rejected_run rejected_no_compiler)
qed

theorem single_config_wrong_count_rejects_witness:
  "\<not> isArray (Single example_config) \<and> (3::int) \<noteq> 1 \<and>
   fst (runBuild example_env (Single example_config) no_options 0 3 []) =
     RejectedPromise errorMessage \<and>
   filter is_compiler_call
     (trace (snd (runBuild example_env (Single example_config) no_options 0 3 []))) = []"
proof -
  have h1: "\<not> isArray (Single example_config)" and h2: "(3::int) \<noteq> 1"
    by simp_all
  show ?thesis
    using h1 h2 single_config_wrong_count_rejects [OF h1 h2, of example_env no_options 0 "[]"]
    by simp
qed





section \<open>The output options\<close>

lemma map_of_assign_defined:
  "map_of (assign_defined k v al) =
     (case v of None \<Rightarrow> map_of al | Some x \<Rightarrow> (map_of al)(k \<mapsto> x))"
  by (simp add: assign_defined_def update_conv' split: option.splits)

lemma lookup_getOutputOptions:
  "map_of (getOutputOptions webpackConfig opts) k =
     (case (if k = ''colors'' then opt_colors opts
            else if k = ''exclude'' then exclude opts
            else if k = ''assetsSort'' then assetsSort opts
            else if k = ''chunksSort'' then chunksSort opts
            else if k = ''modulesSort'' then modulesSort opts
            else None) of
        Some v \<Rightarrow> Some v
      | None \<Rightarrow> map_of (stats webpackConfig) k)"
  by (simp add: getOutputOptions_def map_of_assign_defined split: option.splits)

text \<open>
  Claim C6. The output options are the statistics settings of the configuration with
  the options merged in field by field: each of \<open>modulesSort\<close>, \<open>chunksSort\<close>,
  \<open>assetsSort\<close>, \<open>exclude\<close> and \<open>colors\<close> that is defined in the options has the
  value of the options, each that is not defined there keeps what the configuration
  says, and no other field changes. The settings \<^verbatim>\<open>{colors: true}\<close> with the options
  \<^verbatim>\<open>{colors: false, exclude: /node_modules/}\<close> give
  \<^verbatim>\<open>{colors: false, exclude: /node_modules/}\<close>.
\<close>

theorem output_options_merge:
  "(\<forall>v. modulesSort opts = Some v \<longrightarrow>
      map_of (getOutputOptions webpackConfig opts) ''modulesSort'' = Some v) \<and>
   (\<forall>v. chunksSort opts = Some v \<longrightarrow>
      map_of (getOutputOptions webpackConfig opts) ''chunksSort'' = Some v) \<and>
   (\<forall>v. assetsSort opts = Some v \<longrightarrow>
      map_of (getOutputOptions webpackConfig opts) ''assetsSort'' = Some v) \<and>
   (\<forall>v. exclude opts = Some v \<longrightarrow>
      map_of (getOutputOptions webpackConfig opts) ''exclude'' = Some v) \<and>
   (\<forall>v. opt_colors opts = Some v \<longrightarrow>
      map_of (getOutputOptions webpackConfig opts) ''colors'' = Some v) \<and>
   (modulesSort opts = None \<longrightarrow>
      map_of (getOutputOptions webpackConfig opts) ''modulesSort'' =
        map_of (stats webpackConfig) ''modulesSort'') \<and>
   (chunksSort opts = None \<longrightarrow>
      map_of (getOutputOptions webpackConfig opts) ''chunksSort'' =
        map_of (stats webpackConfig) ''chunksSort'') \<and>
   (assetsSort opts = None \<longrightarrow>
      map_of (getOutputOptions webpackConfig opts) ''assetsSort'' =
        map_of (stats webpackConfig) ''assetsSort'') \<and>
   (exclude opts = None \<longrightarrow>
      map_of (getOutputOptions webpackConfig opts) ''exclude'' =
        map_of (stats webpackConfig) ''exclude'') \<and>
   (opt_colors opts = None \<longrightarrow>
      map_of (getOutputOptions webpackConfig opts) ''colors'' =
        map_of (stats webpackConfig) ''colors'') \<and>
   (k \<notin> {''modulesSort'', ''chunksSort'', ''assetsSort'', ''exclude'', ''colors''} \<longrightarrow>
      map_of (getOutputOptions webpackConfig opts) k = map_of (stats webpackConfig) k) \<and>
   getOutputOptions example_config
     (no_options\<lparr>opt_colors := Some (JBool False), exclude := Some (JRegExp ''node_modules'')\<rparr>) =
     [(''colors'', JBool False), (''exclude'', JRegExp ''node_modules'')]"
proof -
  have ex: "getOutputOptions example_config
     (no_options\<lparr>opt_colors := Some (JBool False), exclude := Some (JRegExp ''node_modules'')\<rparr>) =
     [(''colors'', JBool False), (''exclude'', JRegExp ''node_modules'')]"
    by (simp add: getOutputOptions_def example_config_def no_options_def assign_defined_def)
  show ?thesis
    unfolding lookup_getOutputOptions ex by (simp split: option.splits)
qed

theorem output_options_merge_witness:
  "map_of (getOutputOptions (example_config\<lparr>stats := [(''colors'', JBool True), (''modulesSort'', JStr ''size'')]\<rparr>)
             (no_options\<lparr>opt_colors := Some (JBool False)\<rparr>)) ''colors'' = Some (JBool False) \<and>
   map_of (getOutputOptions (example_config\<lparr>stats := [(''colors'', JBool True), (''modulesSort'', JStr ''size'')]\<rparr>)
             (no_options\<lparr>opt_colors := Some (JBool False)\<rparr>)) ''modulesSort'' = Some (JStr ''size'') \<and>
   map_of (getOutputOptions (example_config\<lparr>stats := [(''colors'', JBool True), (''modulesSort'', JStr ''size'')]\<rparr>)
             (no_options\<lparr>opt_colors := Some (JBool False)\<rparr>)) ''exclude'' = None"
  using output_options_merge
    [of "no_options\<lparr>opt_colors := Some (JBool False)\<rparr>"
        "example_config\<lparr>stats := [(''colors'', JBool True), (''modulesSort'', JStr ''size'')]\<rparr>"
        "''hash''"]
  by (simp add: no_options_def example_config_def)

section \<open>The display name\<close>

lemma get_substitution_literal:
  "CHR ''$'' \<notin> set r \<Longrightarrow> get_substitution m b a r = r"
  by (induction m b a r rule: get_substitution.induct) auto

text \<open>An entry name without a dollar sign is put in as it is.\<close>

lemma replace_name_literal:
  "CHR ''$'' \<notin> set r \<Longrightarrow> replace_name r pre s = substitute_literally r s"
  by (induction r pre s rule: replace_name.induct) (simp_all add: get_substitution_literal)

lemma getAppName_named:
  "name c = Some n \<Longrightarrow> n \<noteq> [] \<Longrightarrow> getAppName c = Inr (substitute_entry (entry c) n)"
  by (simp add: getAppName_def name_or_filename_def)

lemma getAppName_unnamed:
  "name c = None \<or> name c = Some [] \<Longrightarrow> wp_output c = Some out \<Longrightarrow> filename out = Some f \<Longrightarrow>
   getAppName c = Inr (substitute_entry (entry c) f)"
  by (auto simp add: getAppName_def name_or_filename_def read_filename_def)

lemma substitute_single_entry:
  "occurs_in placeholder s \<Longrightarrow> CHR ''$'' \<notin> set k \<Longrightarrow>
   substitute_entry (EntryObject [(k, v)]) s = substitute_literally k s"
  by (simp add: substitute_entry_def replace_name_literal)

lemma substitute_many_entries:
  "length kvs \<noteq> 1 \<Longrightarrow> substitute_entry (EntryObject kvs) s = s"
  by (simp add: substitute_entry_def)

lemma getAppName_example: "getAppName example_config = Inr ''main.bundle.js''"
  by (simp add: getAppName_def example_config_def name_or_filename_def read_filename_def
      substitute_entry_def placeholder_def)

text \<open>
  Claim C5. The display name is the configuration's name or else the output file name,
  with the name of a single entry point put in place of each \<^verbatim>\<open>[name]\<close>. The code
  hands the entry name to \<^verbatim>\<open>String.prototype.replace\<close> as the replacement string,
  where \<^verbatim>\<open>$$\<close> is read as one dollar sign: for the single entry point \<^verbatim>\<open>a$$b\<close> and
  the template \<^verbatim>\<open>[name].bundle.js\<close> the result is \<^verbatim>\<open>a$b.bundle.js\<close>, while the entry
  name put in as it is gives \<^verbatim>\<open>a$$b.bundle.js\<close>.
\<close>

theorem entry_name_with_dollars_altered:
  "getAppName dollar_config = Inr ''a$b.bundle.js'' \<and>
   substitute_literally ''a$$b'' ''[name].bundle.js'' = ''a$$b.bundle.js''"
  by (simp add: getAppName_def dollar_config_def example_config_def name_or_filename_def
      read_filename_def substitute_entry_def placeholder_def)

section \<open>The worker at work\<close>

declare finishedCallback.simps [simp del]

lemma valid_run:
  assumes "\<not> count_mismatch config n"
    and "promise_resolve (select_config config index) = Fulfilled (VConfig cfg)"
  shows "snd (runBuild e config opts index n sigs) =
           foldl (deliver (make_closure e opts index cfg))
             (then_callback (make_closure e opts index cfg) (VConfig cfg) (process_settings opts)) sigs"
  using assms by (simp add: runBuild_def resolve_and_build_def Let_def)

lemma closure_simps [simp]:
  "c_env (make_closure e opts index cfg) = e"
  "c_options (make_closure e opts index cfg) = opts"
  "c_index (make_closure e opts index cfg) = index"
  "c_config (make_closure e opts index cfg) = cfg"
  "c_outputOptions (make_closure e opts index cfg) = getOutputOptions cfg opts"
  "c_watch (make_closure e opts index cfg) = truthy (opt_watch opts)"
  "c_silent (make_closure e opts index cfg) = truthy (opt_json opts)"
  by (simp_all add: make_closure_def)

lemma emit_simps [simp]:
  "trace (emit es w) = trace w @ es"
  "hasCompletedOneCompile (emit es w) = hasCompletedOneCompile w"
  "watcher (emit es w) = watcher w"
  "listener (emit es w) = listener w"
  "compiler (emit es w) = compiler w"
  "exited (emit es w) = exited w"
  by (simp_all add: emit_def)

lemma removeListener_simps [simp]:
  "trace (removeListener w) = trace w @ [RemoveListener]"
  "hasCompletedOneCompile (removeListener w) = hasCompletedOneCompile w"
  "watcher (removeListener w) = watcher w"
  "listener (removeListener w) = False"
  "compiler (removeListener w) = compiler w"
  "exited (removeListener w) = exited w"
  by (simp_all add: removeListener_def)

lemma process_settings_simps [simp]:
  "hasCompletedOneCompile (process_settings opts) = False"
  "watcher (process_settings opts) = False"
  "listener (process_settings opts) = False"
  "compiler (process_settings opts) = Idle"
  "exited (process_settings opts) = False"
  "filter is_done (trace (process_settings opts)) = []"
  "filter is_notify (trace (process_settings opts)) = []"
  by (simp_all add: process_settings_def initial_def split: option.splits)

lemma then_callback_named:
  assumes "getAppName (c_config c) = Inr appName"
  shows "hasCompletedOneCompile (then_callback c v w) = hasCompletedOneCompile w"
    and "watcher (then_callback c v w) = (c_watch c \<or> webpack_watch (c_env c) \<or> watcher w)"
    and "listener (then_callback c v w)"
    and "compiler (then_callback c v w) =
           (if c_watch c \<or> webpack_watch (c_env c) then Watching else Running)"
    and "exited (then_callback c v w) = exited w"
    and "filter is_done (trace (then_callback c v w)) = filter is_done (trace w)"
    and "filter is_notify (trace (then_callback c v w)) = filter is_notify (trace w)"
  using assms by (simp_all add: then_callback_def Let_def)



text \<open>In watch mode a compilation without a fatal error leaves the worker as it is, but for the flag.\<close>

lemma finished_in_watch_mode:
  assumes "c_watch c" and "getAppName (c_config c) = Inr appName"
  shows "watcher (finishedCallback c (Finished s) w) = watcher w"
    and "listener (finishedCallback c (Finished s) w) = listener w"
    and "compiler (finishedCallback c (Finished s) w) = compiler w"
    and "exited (finishedCallback c (Finished s) w) = exited w"
    and "hasCompletedOneCompile (finishedCallback c (Finished s) w)"
    and "filter is_done (trace (finishedCallback c (Finished s) w)) = filter is_done (trace w)"
  using assms
  by (simp_all add: finishedCallback.simps report_and_conclude_def conclude_def Let_def)

lemma finished_first_in_watch_mode:
  assumes "c_watch c" and "getAppName (c_config c) = Inr appName"
    and "\<not> hasCompletedOneCompile w"
  shows "\<exists>mid. trace (finishedCallback c (Finished s) w) =
                 trace w @ mid @ [NotifyIPCWatchCompileDone (c_index c)] \<and>
               filter is_notify mid = []"
  using assms by (simp add: finishedCallback.simps report_and_conclude_def conclude_def Let_def)

lemma finished_again_in_watch_mode:
  assumes "c_watch c" and "getAppName (c_config c) = Inr appName"
    and "hasCompletedOneCompile w"
  shows "filter is_notify (trace (finishedCallback c (Finished s) w)) = filter is_notify (trace w)"
  using assms by (simp add: finishedCallback.simps report_and_conclude_def conclude_def Let_def)

lemma fatal_simps [simp]:
  "watcher (finishedCallback c (Fatal err) w) = watcher w"
  "listener (finishedCallback c (Fatal err) w) = False"
  "compiler (finishedCallback c (Fatal err) w) = compiler w"
  "exited (finishedCallback c (Fatal err) w) = exited w"
  "hasCompletedOneCompile (finishedCallback c (Fatal err) w) = hasCompletedOneCompile w"
  "filter is_notify (trace (finishedCallback c (Fatal err) w)) = filter is_notify (trace w)"
  by (simp_all add: finishedCallback.simps)

lemma shutdown_named:
  assumes "getAppName (c_config c) = Inr appName"
  shows "trace (shutdownCallback c w) =
           trace w @ (if watcher w then [WatcherClose] else []) @
           [Done (DoneFailure \<lparr>message = forced_message c appName, stats_json = None\<rparr>),
            ProcessExit 0]"
    and "exited (shutdownCallback c w)"
  using assms by (simp_all add: shutdownCallback_def Let_def)

lemma exited_stays: "exited w \<Longrightarrow> foldl (deliver c) w sigs = w"
  by (induction sigs) (simp_all add: deliver_def)

lemma sigint_ends:
  assumes "getAppName (c_config c) = Inr appName"
  shows "exited (deliver c w Sigint)"
    and "filter is_notify (trace (deliver c w Sigint)) = filter is_notify (trace w)"
  using assms by (simp_all add: deliver_def shutdown_named)

lemma example_config_simps [simp]:
  "watchOptions example_config = None"
  "stats example_config = [(''colors'', JBool True)]"
  by (simp_all add: example_config_def)

lemma example_env_simps [simp]:
  "red example_env s = s" "yellow example_env s = s" "blue example_env s = s"
  "webpack_watch example_env = False"
  by (simp_all add: example_env_def)

lemmas run_defs =
  runBuild_def resolve_and_build_def count_mismatch_def promise_resolve_def
  process_settings_def initial_def then_callback_def deliver_def Let_def emit_def
  removeListener_def make_closure_def finishedCallback.simps report_and_conclude_def
  conclude_def shutdownCallback_def has_errors_def errors_message_def forced_message_def


section \<open>One build\<close>



text \<open>
  Claim C7, as amended. In a build that does not watch, when the statistics report one
  or more compilation errors, the listener is removed and \<^verbatim>\<open>done\<close> is called with an
  object that holds the composite message (the banner, the display name and the error
  messages joined by newlines) and the serialized statistics, whether or not
  \<^verbatim>\<open>options.stats\<close> was requested.
\<close>

theorem compile_errors_reported_with_stats:
  assumes "\<not> truthy (opt_watch opts)"
    and "\<not> count_mismatch config n"
    and "promise_resolve (select_config config index) = Fulfilled (VConfig cfg)"
    and "getAppName cfg = Inr appName"
    and "errors s = Some es" and "es \<noteq> []"
  shows "trace (snd (runBuild e config opts index n [Compiled (Finished s)])) =
           trace (snd (runBuild e config opts index n [])) @
           [RemoveListener,
            Done (DoneFailure
                    \<lparr>message = red e ''[WEBPACK]'' @ '' Errors building '' @ yellow e appName @
                                [CHR 0x0A] @ join [CHR 0x0A] es,
                     stats_json = Some (StatsJson s (getOutputOptions cfg opts))\<rparr>)]"
proof -
  let ?c = "make_closure e opts index cfg"
  let ?w = "then_callback ?c (VConfig cfg) (process_settings opts)"
  have named: "getAppName (c_config ?c) = Inr appName"
    using assms(4) by simp
  note started = then_callback_named [OF named, of "VConfig cfg" "process_settings opts"]
  have live: "\<not> exited ?w" and busy: "compiler ?w \<noteq> Idle"
    using started by simp_all
  have errs: "has_errors s"
    using assms(5,6) by (simp add: has_errors_def)
  have "trace (deliver ?c ?w (Compiled (Finished s))) =
          trace ?w @ [RemoveListener,
            Done (DoneFailure \<lparr>message = errors_message ?c appName s,
                               stats_json = Some (StatsJson s (c_outputOptions ?c))\<rparr>)]"
    using live busy errs named assms(1)
    by (cases "compiler ?w") (simp_all add: deliver_def finishedCallback.simps)
  then show ?thesis
    using assms(5) by (simp add: valid_run [OF assms(2,3)] errors_message_def)
qed

theorem compile_errors_reported_with_stats_witness:
  "trace (snd (runBuild example_env (Single example_config)
                 (no_options\<lparr>opt_stats := Some (JBool True)\<rparr>) 0 1
                 [Compiled (Finished failing_stats)])) =
   trace (snd (runBuild example_env (Single example_config)
                 (no_options\<lparr>opt_stats := Some (JBool True)\<rparr>) 0 1 [])) @
   [RemoveListener,
    Done (DoneFailure
            \<lparr>message = ''[WEBPACK] Errors building main.bundle.js'' @ [CHR 0x0A] @ ''Module not found'',
             stats_json = Some (StatsJson failing_stats [(''colors'', JBool True)])\<rparr>)]"
proof -
  have h1: "\<not> truthy (opt_watch (no_options\<lparr>opt_stats := Some (JBool True)\<rparr>))"
    by (simp add: no_options_def)
  have h2: "\<not> count_mismatch (Single example_config) 1"
    by (simp add: count_mismatch_def)
  have h3: "promise_resolve (select_config (Single example_config) 0) =
              Fulfilled (VConfig example_config)"
    by (simp add: promise_resolve_def)
  have h5: "errors failing_stats = Some [''Module not found'']" and h6: "[''Module not found''] \<noteq> []"
    by (simp_all add: failing_stats_def)
  have o: "getOutputOptions example_config (no_options\<lparr>opt_stats := Some (JBool True)\<rparr>) =
             [(''colors'', JBool True)]"
    by (simp add: getOutputOptions_def assign_defined_def no_options_def)
  show ?thesis
    using compile_errors_reported_with_stats [OF h1 h2 h3 getAppName_example h5 h6, of example_env]
    unfolding o by simp
qed

text \<open>
  The claim as it was stated fails: with \<^verbatim>\<open>options.stats\<close> not requested, the object
  given to \<^verbatim>\<open>done\<close> holds the serialized statistics all the same.
\<close>

theorem failure_carries_stats_unrequested:
  "opt_stats no_options = None \<and>
   trace (snd (runBuild example_env (Single example_config) no_options 0 1
                 [Compiled (Finished failing_stats)])) =
   [SetChalkEnabled None,
    ConsoleLog (StartedLine ''building'' ''main.bundle.js''),
    Webpack (VConfig example_config), CompilerRun, ProcessOnSigint,
    RemoveListener,
    Done (DoneFailure
            \<lparr>message = ''[WEBPACK] Errors building main.bundle.js'' @ [CHR 0x0A] @ ''Module not found'',
             stats_json = Some (StatsJson failing_stats [(''colors'', JBool True)])\<rparr>)]"
  by (simp add: run_defs no_options_def getAppName_example failing_stats_def
      getOutputOptions_def assign_defined_def)

section \<open>Watching\<close>


lemma deliver_after_first:
  assumes "c_watch c" and "getAppName (c_config c) = Inr appName"
    and "hasCompletedOneCompile w"
  shows "hasCompletedOneCompile (deliver c w sig) \<and>
         filter is_notify (trace (deliver c w sig)) = filter is_notify (trace w)"
proof (cases sig)
  case (Compiled r)
  show ?thesis
  proof (cases r)
    case (Fatal err)
    then show ?thesis
      using Compiled assms(3) by (simp add: deliver_def split: compiler_state.splits)
  next
    case (Finished s)
    then show ?thesis
      using Compiled assms(3)
        finished_in_watch_mode(5) [OF assms(1,2)]
        finished_again_in_watch_mode [OF assms(1,2)]
      by (simp add: deliver_def split: compiler_state.splits)
  qed
next
  case Sigint
  then show ?thesis
    using assms by (simp add: deliver_def shutdownCallback_def Let_def)
qed

lemma notify_after_first:
  assumes "c_watch c" and "getAppName (c_config c) = Inr appName"
    and "hasCompletedOneCompile w"
  shows "filter is_notify (trace (foldl (deliver c) w sigs)) = filter is_notify (trace w)"
  using assms(3)
proof (induction sigs arbitrary: w)
  case Nil
  then show ?case by simp
next
  case (Cons sig sigs)
  then show ?case
    using deliver_after_first [OF assms(1,2), of w sig] by simp
qed

lemma notify_count:
  assumes "c_watch c" and "getAppName (c_config c) = Inr appName"
    and "compiler w = Watching" and "\<not> exited w" and "\<not> hasCompletedOneCompile w"
  shows "filter is_notify (trace (foldl (deliver c) w sigs)) =
           filter is_notify (trace w) @
           (if list_ex is_finished (takeWhile is_compiled sigs)
            then [NotifyIPCWatchCompileDone (c_index c)] else [])"
  using assms(3-)
proof (induction sigs arbitrary: w)
  case Nil
  then show ?case by simp
next
  case (Cons sig sigs)
  show ?case
  proof (cases sig)
    case Sigint
    have "foldl (deliver c) (deliver c w Sigint) sigs = deliver c w Sigint"
      using sigint_ends(1) [OF assms(2)] exited_stays by blast
    then show ?thesis
      using Sigint sigint_ends(2) [OF assms(2)] by simp
  next
    case (Compiled r)
    show ?thesis
    proof (cases r)
      case (Fatal err)
      have step: "deliver c w sig = finishedCallback c (Fatal err) w"
        using Compiled Fatal Cons.prems by (simp add: deliver_def)
      have kept: "compiler (deliver c w sig) = Watching" "\<not> exited (deliver c w sig)"
          "\<not> hasCompletedOneCompile (deliver c w sig)"
        and same: "filter is_notify (trace (deliver c w sig)) = filter is_notify (trace w)"
        using Cons.prems by (simp_all add: step)
      show ?thesis
        using Cons.IH [OF kept] same Compiled Fatal by simp
    next
      case (Finished s)
      have step: "deliver c w (Compiled (Finished s)) = finishedCallback c (Finished s) w"
        using Cons.prems by (simp add: deliver_def)
      obtain mid where mid:
        "trace (finishedCallback c (Finished s) w) =
           trace w @ mid @ [NotifyIPCWatchCompileDone (c_index c)]"
        "filter is_notify mid = []"
        using finished_first_in_watch_mode [OF assms(1,2) Cons.prems(3)] by blast
      have "filter is_notify (trace (foldl (deliver c) (finishedCallback c (Finished s) w) sigs)) =
              filter is_notify (trace (finishedCallback c (Finished s) w))"
        using notify_after_first [OF assms(1,2)] finished_in_watch_mode(5) [OF assms(1,2)]
        by blast
      then show ?thesis
        using Compiled Finished mid by (simp add: step)
    qed
  qed
qed

lemma fatal_prefix_invariant:
  assumes "\<forall>x\<in>set pre. is_fatal x"
    and "compiler w = Watching" and "\<not> exited w" and "\<not> hasCompletedOneCompile w"
  shows "compiler (foldl (deliver c) w pre) = Watching \<and> \<not> exited (foldl (deliver c) w pre) \<and>
         \<not> hasCompletedOneCompile (foldl (deliver c) w pre)"
  using assms
proof (induction pre arbitrary: w)
  case Nil
  then show ?case by simp
next
  case (Cons x pre)
  from Cons.prems(1) obtain err where x: "x = Compiled (Fatal err)"
    by (cases x rule: is_fatal.cases) auto
  have step: "deliver c w x = finishedCallback c (Fatal err) w"
    using Cons.prems x by (simp add: deliver_def)
  show ?case
    using Cons.IH [of "deliver c w x"] Cons.prems by (simp add: step)
qed

text \<open>
  Claim C2, as amended. In watch mode, for a configuration that passes the count
  validation and has a display name, the readiness notification is sent exactly once,
  in the first callback of the compiler that brings no fatal error, whether or not the
  statistics report compilation errors: it is the last thing that callback does. It is
  sent for the given index, never again on a later compilation, and never at all when
  every compilation before an interrupt ended in a fatal error.
\<close>

theorem readiness_on_first_completed_compile:
  assumes "truthy (opt_watch opts)"
    and "\<not> count_mismatch config n"
    and "promise_resolve (select_config config index) = Fulfilled (VConfig cfg)"
    and "getAppName cfg = Inr appName"
  shows "filter is_notify (trace (snd (runBuild e config opts index n sigs))) =
           (if list_ex is_finished (takeWhile is_compiled sigs)
            then [NotifyIPCWatchCompileDone index] else []) \<and>
         ((\<forall>x\<in>set pre. is_fatal x) \<longrightarrow>
            (\<exists>mid. trace (snd (runBuild e config opts index n (pre @ [Compiled (Finished s)]))) =
                     trace (snd (runBuild e config opts index n pre)) @ mid @
                     [NotifyIPCWatchCompileDone index] \<and>
                   filter is_notify mid = []))"
proof -
  let ?c = "make_closure e opts index cfg"
  let ?w = "then_callback ?c (VConfig cfg) (process_settings opts)"
  have named: "getAppName (c_config ?c) = Inr appName" and watch: "c_watch ?c"
    using assms(1,4) by simp_all
  note started = then_callback_named [OF named, of "VConfig cfg" "process_settings opts"]
  have w: "compiler ?w = Watching" "\<not> exited ?w" "\<not> hasCompletedOneCompile ?w"
    and quiet: "filter is_notify (trace ?w) = []"
    using started assms(1) by simp_all
  have count: "filter is_notify (trace (snd (runBuild e config opts index n sigs))) =
           (if list_ex is_finished (takeWhile is_compiled sigs)
            then [NotifyIPCWatchCompileDone index] else [])"
    using notify_count [OF watch named w, of sigs] quiet
    by (simp add: valid_run [OF assms(2,3)])
  have first: "\<exists>mid. trace (snd (runBuild e config opts index n (pre @ [Compiled (Finished s)]))) =
                     trace (snd (runBuild e config opts index n pre)) @ mid @
                     [NotifyIPCWatchCompileDone index] \<and>
                   filter is_notify mid = []"
    if "\<forall>x\<in>set pre. is_fatal x"
  proof -
    let ?v = "foldl (deliver ?c) ?w pre"
    have v: "compiler ?v = Watching" "\<not> exited ?v" "\<not> hasCompletedOneCompile ?v"
      using fatal_prefix_invariant [OF that w] by blast+
    have step: "deliver ?c ?v (Compiled (Finished s)) = finishedCallback ?c (Finished s) ?v"
      using v by (simp add: deliver_def)
    show ?thesis
      using finished_first_in_watch_mode [OF watch named v(3), of s]
      by (simp add: valid_run [OF assms(2,3)] step)
  qed
  show ?thesis
    using count first by blast
qed

theorem readiness_on_first_completed_compile_witness:
  "filter is_notify
     (trace (snd (runBuild example_env (Single example_config)
                    (no_options\<lparr>opt_watch := Some (JBool True)\<rparr>) 0 1
                    [Compiled (Fatal ''ENOENT''), Compiled (Finished clean_stats),
                     Compiled (Finished clean_stats), Sigint, Compiled (Finished clean_stats)]))) =
     [NotifyIPCWatchCompileDone 0] \<and>
   (\<exists>mid. trace (snd (runBuild example_env (Single example_config)
                        (no_options\<lparr>opt_watch := Some (JBool True)\<rparr>) 0 1
                        ([Compiled (Fatal ''ENOENT'')] @ [Compiled (Finished clean_stats)]))) =
            trace (snd (runBuild example_env (Single example_config)
                        (no_options\<lparr>opt_watch := Some (JBool True)\<rparr>) 0 1
                        [Compiled (Fatal ''ENOENT'')])) @ mid @ [NotifyIPCWatchCompileDone 0] \<and>
          filter is_notify mid = [])"
proof -
  have h1: "truthy (opt_watch (no_options\<lparr>opt_watch := Some (JBool True)\<rparr>))"
    by simp
  have h2: "\<not> count_mismatch (Single example_config) 1"
    by (simp add: count_mismatch_def)
  have h3: "promise_resolve (select_config (Single example_config) 0) =
              Fulfilled (VConfig example_config)"
    by (simp add: promise_resolve_def)
  show ?thesis
    using readiness_on_first_completed_compile [OF h1 h2 h3 getAppName_example,
        where e = example_env and pre = "[Compiled (Fatal ''ENOENT'')]" and s = clean_stats
          and sigs = "[Compiled (Fatal ''ENOENT''), Compiled (Finished clean_stats),
                     Compiled (Finished clean_stats), Sigint, Compiled (Finished clean_stats)]"]
    by simp
qed

text \<open>
  The claim as it was stated fails: in watch mode the first compilation reports an
  error, and the notification is sent.
\<close>

theorem readiness_sent_despite_compile_errors:
  "has_errors failing_stats \<and>
   trace (snd (runBuild example_env (Single example_config)
                 (no_options\<lparr>opt_watch := Some (JBool True)\<rparr>) 0 1
                 [Compiled (Finished failing_stats)])) =
   [SetChalkEnabled None,
    ConsoleLog (StartedLine ''watching'' ''main.bundle.js''),
    Webpack (VConfig example_config), CompilerWatch None, ProcessOnSigint,
    ConsoleLog (ErrorsLine (''[WEBPACK] Errors building main.bundle.js'' @ [CHR 0x0A] @ ''Module not found'')),
    ConsoleLog (FinishedLine True ''main.bundle.js'' 1500),
    NotifyIPCWatchCompileDone 0]"
  by (simp add: run_defs no_options_def getAppName_example failing_stats_def)





section \<open>Silence\<close>

text \<open>What \<^verbatim>\<open>options.json\<close> silences: the three lines under \<^verbatim>\<open>if (!silent)\<close>.\<close>

lemma uncaught_simps [simp]:
  "trace (uncaught e w) = trace w @ [Uncaught e]"
  "exited (uncaught e w)"
  by (simp_all add: uncaught_def)

lemma deliver_silent:
  assumes "c_silent c"
  shows "filter is_status_line (trace (deliver c w sig)) = filter is_status_line (trace w)"
proof (cases sig)
  case (Compiled r)
  have "filter is_status_line (trace (finishedCallback c r v)) = filter is_status_line (trace v)"
    for v
    using assms
    by (cases r)
       (simp_all add: finishedCallback.simps report_and_conclude_def conclude_def
          split: sum.splits)
  then show ?thesis
    using Compiled by (simp add: deliver_def split: compiler_state.splits)
next
  case Sigint
  then show ?thesis
    by (simp add: deliver_def shutdownCallback_def Let_def split: sum.splits)
qed

lemma run_silent:
  assumes "c_silent c"
  shows "filter is_status_line (trace (foldl (deliver c) w sigs)) = filter is_status_line (trace w)"
  by (induction sigs arbitrary: w) (simp_all add: deliver_silent [OF assms])

lemma then_callback_silent:
  assumes "c_silent c"
  shows "filter is_status_line (trace (then_callback c v w)) = filter is_status_line (trace w)"
  using assms by (simp add: then_callback_def Let_def)

lemma silent_no_status_lines:
  assumes "truthy (opt_json opts)"
  shows "filter is_status_line (trace (snd (runBuild e config opts index n sigs))) = []"
proof -
  have start: "filter is_status_line (trace (process_settings opts)) = []"
    by (simp add: process_settings_def initial_def split: option.splits)
  have "c_silent (make_closure e opts index cfg)" for cfg
    using assms by simp
  then show ?thesis
    using start
    by (simp add: runBuild_def resolve_and_build_def Let_def run_silent then_callback_silent
        split: settled.splits option.splits)
qed

text \<open>
  Claim C9. With \<^verbatim>\<open>options.json\<close> set the worker is to write no line for people. The
  code writes three all the same: the message of the count mismatch and the two lines of
  a fatal error on the error stream, and in watch mode the message of the compilation
  errors on the output stream.
\<close>

theorem silent_mode_writes_errors:
  "truthy (opt_json (no_options\<lparr>opt_json := Some (JBool True)\<rparr>)) \<and>
   trace (snd (runBuild example_env (Single example_config)
                 (no_options\<lparr>opt_json := Some (JBool True)\<rparr>) 0 2 [])) =
   [SetChalkEnabled None, ConsoleError (MismatchLine errorMessage)] \<and>
   trace (snd (runBuild example_env (Single example_config)
                 (no_options\<lparr>opt_json := Some (JBool True)\<rparr>) 0 1
                 [Compiled (Fatal ''ENOENT'')])) =
   [SetChalkEnabled None, Webpack (VConfig example_config), CompilerRun, ProcessOnSigint,
    ConsoleError (FatalBanner ''[WEBPACK]''), ConsoleError (FatalValue ''ENOENT''),
    RemoveListener, Done (DoneFatal ''ENOENT'')] \<and>
   trace (snd (runBuild example_env (Single example_config)
                 (no_options\<lparr>opt_json := Some (JBool True), opt_watch := Some (JBool True)\<rparr>) 0 1
                 [Compiled (Finished failing_stats)])) =
   [SetChalkEnabled None, Webpack (VConfig example_config), CompilerWatch None, ProcessOnSigint,
    ConsoleLog (ErrorsLine (''[WEBPACK] Errors building main.bundle.js'' @ [CHR 0x0A] @ ''Module not found'')),
    NotifyIPCWatchCompileDone 0]"
  by (simp add: run_defs no_options_def getAppName_example failing_stats_def)


end
